theory Spec2Isabelle
  imports Main
begin

section \<open>Python values, exceptions and text\<close>

text \<open>
  The converter's methods are annotated with \<open>str\<close> but check their arguments with
  \<open>isinstance\<close>, so an argument is a Python value that may or may not be text. The
  values a cell of the prepared data frame can hold are text, the float NaN that pandas
  writes for a missing entry, \<open>None\<close>, and a number.
\<close>

datatype pyval = PStr string | PNaN | PNone | PInt int

text \<open>
  The exception classes that the two source files raise or provoke. \<open>KeyError\<close> carries
  the missing key, the other classes carry their message.
\<close>

datatype exc = TypeError string | ValueError string | KeyError string | AttributeError string

text \<open>
  Text is a list of 8-bit characters. \<open>str.lower\<close> and \<open>str.capitalize\<close> are modelled
  on the ASCII letters, which is the alphabet of every token the program compares with.
  The model maps every other character to itself: the case pairs that Python's Unicode
  tables have beyond ASCII are outside it.
\<close>

definition ascii_uppercase :: string where
  "ascii_uppercase = ''ABCDEFGHIJKLMNOPQRSTUVWXYZ''"

definition ascii_lowercase :: string where
  "ascii_lowercase = ''abcdefghijklmnopqrstuvwxyz''"

definition lower_char :: "char \<Rightarrow> char" where
  "lower_char c =
     (case map_of (zip ascii_uppercase ascii_lowercase) c of Some d \<Rightarrow> d | None \<Rightarrow> c)"

definition title_char :: "char \<Rightarrow> char" where
  "title_char c =
     (case map_of (zip ascii_lowercase ascii_uppercase) c of Some d \<Rightarrow> d | None \<Rightarrow> c)"

definition lower :: "string \<Rightarrow> string" where
  "lower s = map lower_char s"

text \<open>\<open>s.capitalize()\<close>: the first character in title case, the rest in lower case.\<close>

fun capitalize :: "string \<Rightarrow> string" where
  "capitalize [] = []"
| "capitalize (c # cs) = title_char c # lower cs"

section \<open>The enumerations of ssvc\_converter.py\<close>

datatype ExploitationLevel = ACTIVE | POC | NONE

datatype Automatable = YES | NO

datatype TechnicalImpact = TOTAL | PARTIAL

datatype MissionImpact = HIGH | MEDIUM | LOW

datatype SsvcAction = ACT | ATTEND | TRACK_STAR | TRACK

text \<open>The \<open>.value\<close> of each member.\<close>

fun ExploitationLevel_value :: "ExploitationLevel \<Rightarrow> string" where
  "ExploitationLevel_value ACTIVE = ''Active''"
| "ExploitationLevel_value POC = ''PoC''"
| "ExploitationLevel_value NONE = ''None''"

fun Automatable_value :: "Automatable \<Rightarrow> string" where
  "Automatable_value YES = ''Yes''"
| "Automatable_value NO = ''No''"

fun TechnicalImpact_value :: "TechnicalImpact \<Rightarrow> string" where
  "TechnicalImpact_value TOTAL = ''Total''"
| "TechnicalImpact_value PARTIAL = ''Partial''"

fun MissionImpact_value :: "MissionImpact \<Rightarrow> string" where
  "MissionImpact_value HIGH = ''High''"
| "MissionImpact_value MEDIUM = ''Medium''"
| "MissionImpact_value LOW = ''Low''"

fun SsvcAction_value :: "SsvcAction \<Rightarrow> string" where
  "SsvcAction_value ACT = ''Act''"
| "SsvcAction_value ATTEND = ''Attend''"
| "SsvcAction_value TRACK_STAR = ''Track*''"
| "SsvcAction_value TRACK = ''Track''"

section \<open>The decision tree\<close>

text \<open>\<open>SsvcConverter.get_final_action\<close>, branch by branch as the source nests them.\<close>

definition get_final_action ::
  "ExploitationLevel \<Rightarrow> Automatable \<Rightarrow> TechnicalImpact \<Rightarrow> MissionImpact \<Rightarrow> SsvcAction" where
  "get_final_action exploitation automatable tech_impact mission_impact =
     (if exploitation = ACTIVE then
        (if automatable = YES then ACT
         else if tech_impact = PARTIAL then ATTEND
         else if mission_impact \<in> set [HIGH, MEDIUM] then ACT else ATTEND)
      else if exploitation = POC then
        (if automatable = YES then
           (if tech_impact = PARTIAL then TRACK_STAR
            else if mission_impact \<in> set [HIGH, MEDIUM] then ATTEND else TRACK_STAR)
         else
           (if tech_impact = PARTIAL then TRACK_STAR
            else if mission_impact = HIGH then ATTEND else TRACK_STAR))
      else
        (if automatable = YES then
           (if tech_impact = PARTIAL then TRACK
            else if mission_impact = HIGH then ATTEND else TRACK)
         else
           (if tech_impact = PARTIAL then TRACK
            else if mission_impact = HIGH then TRACK_STAR else TRACK)))"

text \<open>
  The table of section 4.5 of the specification, written out from the specification's
  sixteen rows with every ``any'' and every ``H or M'' expanded: thirty-six cells.
\<close>

fun decision_table ::
  "ExploitationLevel \<Rightarrow> Automatable \<Rightarrow> TechnicalImpact \<Rightarrow> MissionImpact \<Rightarrow> SsvcAction" where
  "decision_table ACTIVE YES TOTAL HIGH = ACT"
| "decision_table ACTIVE YES TOTAL MEDIUM = ACT"
| "decision_table ACTIVE YES TOTAL LOW = ACT"
| "decision_table ACTIVE YES PARTIAL HIGH = ACT"
| "decision_table ACTIVE YES PARTIAL MEDIUM = ACT"
| "decision_table ACTIVE YES PARTIAL LOW = ACT"
| "decision_table ACTIVE NO PARTIAL HIGH = ATTEND"
| "decision_table ACTIVE NO PARTIAL MEDIUM = ATTEND"
| "decision_table ACTIVE NO PARTIAL LOW = ATTEND"
| "decision_table ACTIVE NO TOTAL HIGH = ACT"
| "decision_table ACTIVE NO TOTAL MEDIUM = ACT"
| "decision_table ACTIVE NO TOTAL LOW = ATTEND"
| "decision_table POC YES PARTIAL HIGH = TRACK_STAR"
| "decision_table POC YES PARTIAL MEDIUM = TRACK_STAR"
| "decision_table POC YES PARTIAL LOW = TRACK_STAR"
| "decision_table POC YES TOTAL HIGH = ATTEND"
| "decision_table POC YES TOTAL MEDIUM = ATTEND"
| "decision_table POC YES TOTAL LOW = TRACK_STAR"
| "decision_table POC NO PARTIAL HIGH = TRACK_STAR"
| "decision_table POC NO PARTIAL MEDIUM = TRACK_STAR"
| "decision_table POC NO PARTIAL LOW = TRACK_STAR"
| "decision_table POC NO TOTAL HIGH = ATTEND"
| "decision_table POC NO TOTAL MEDIUM = TRACK_STAR"
| "decision_table POC NO TOTAL LOW = TRACK_STAR"
| "decision_table NONE YES PARTIAL HIGH = TRACK"
| "decision_table NONE YES PARTIAL MEDIUM = TRACK"
| "decision_table NONE YES PARTIAL LOW = TRACK"
| "decision_table NONE YES TOTAL HIGH = ATTEND"
| "decision_table NONE YES TOTAL MEDIUM = TRACK"
| "decision_table NONE YES TOTAL LOW = TRACK"
| "decision_table NONE NO PARTIAL HIGH = TRACK"
| "decision_table NONE NO PARTIAL MEDIUM = TRACK"
| "decision_table NONE NO PARTIAL LOW = TRACK"
| "decision_table NONE NO TOTAL HIGH = TRACK_STAR"
| "decision_table NONE NO TOTAL MEDIUM = TRACK"
| "decision_table NONE NO TOTAL LOW = TRACK"

section \<open>The classifiers\<close>

text \<open>
  The type check that opens each classifier: the first argument, in the order of the
  parameter list, that is not text raises \<open>TypeError\<close> with the parameter's name.
\<close>

definition must_be_string :: "string \<Rightarrow> pyval \<Rightarrow> exc + string" where
  "must_be_string arg_name arg_val =
     (case arg_val of
        PStr s \<Rightarrow> Inr s
      | _ \<Rightarrow> Inl (TypeError (arg_name @ '' must be a string.'')))"

definition active_states :: "string set" where
  "active_states = {''active'', ''attacked'', ''high'', ''critical'', ''functional''}"

definition poc_states :: "string set" where
  "poc_states = {''poc'', ''proof-of-concept'', ''available''}"

definition get_exploitation_level :: "pyval \<Rightarrow> exc + ExploitationLevel" where
  "get_exploitation_level exploit_maturity =
     (case must_be_string ''exploit_maturity'' exploit_maturity of
        Inl e \<Rightarrow> Inl e
      | Inr s \<Rightarrow>
          (let exploit_maturity' = lower s in
           if exploit_maturity' \<in> active_states then Inr ACTIVE
           else if exploit_maturity' \<in> poc_states then Inr POC
           else Inr NONE))"

definition is_automatable :: "pyval \<Rightarrow> pyval \<Rightarrow> pyval \<Rightarrow> exc + Automatable" where
  "is_automatable attack_complexity privileges_required user_interaction =
     (case must_be_string ''attack_complexity'' attack_complexity of
        Inl e \<Rightarrow> Inl e
      | Inr ac \<Rightarrow>
     (case must_be_string ''privileges_required'' privileges_required of
        Inl e \<Rightarrow> Inl e
      | Inr pr \<Rightarrow>
     (case must_be_string ''user_interaction'' user_interaction of
        Inl e \<Rightarrow> Inl e
      | Inr ui \<Rightarrow>
          (let is_auto = (lower ac = ''l'' \<and> lower pr = ''n'' \<and> lower ui = ''n'')
           in Inr (if is_auto then YES else NO)))))"

definition quoted :: "string \<Rightarrow> string" where
  "quoted s = CHR 0x27 # s @ [CHR 0x27]"

definition valid_values :: "string set" where
  "valid_values = {''h'', ''l'', ''n''}"

text \<open>The message of the \<open>ValueError\<close> raised for a metric outside \<open>valid_values\<close>.\<close>

definition invalid_metric :: "string \<Rightarrow> string \<Rightarrow> exc" where
  "invalid_metric arg_name arg_val =
     ValueError (''Invalid value for metric '' @ quoted arg_name @ '': '' @ quoted arg_val
       @ ''. Must be '' @ quoted ''h'' @ '', '' @ quoted ''l'' @ '', or '' @ quoted ''n''
       @ ''.'')"

text \<open>The validation loop over \<open>[('c', confidentiality), ('i', integrity), ('a', availability)]\<close>.\<close>

fun check_metrics :: "(string \<times> string) list \<Rightarrow> exc + unit" where
  "check_metrics [] = Inr ()"
| "check_metrics ((arg_name, arg_val) # rest) =
     (if lower arg_val \<notin> valid_values then Inl (invalid_metric arg_name arg_val)
      else check_metrics rest)"

definition get_technical_impact :: "pyval \<Rightarrow> pyval \<Rightarrow> pyval \<Rightarrow> exc + TechnicalImpact" where
  "get_technical_impact confidentiality integrity availability =
     (case must_be_string ''confidentiality'' confidentiality of
        Inl e \<Rightarrow> Inl e
      | Inr c \<Rightarrow>
     (case must_be_string ''integrity'' integrity of
        Inl e \<Rightarrow> Inl e
      | Inr i \<Rightarrow>
     (case must_be_string ''availability'' availability of
        Inl e \<Rightarrow> Inl e
      | Inr a \<Rightarrow>
     (case check_metrics [(''c'', c), (''i'', i), (''a'', a)] of
        Inl e \<Rightarrow> Inl e
      | Inr _ \<Rightarrow>
          (let is_total = (lower c = ''h'' \<and> lower i = ''h'' \<and> lower a = ''h'')
           in Inr (if is_total then TOTAL else PARTIAL))))))"

section \<open>Mission impact and the decision path\<close>

text \<open>
  \<open>repr\<close> of a text, which the enumeration's lookup failure and \<open>str\<close> of a
  \<open>KeyError\<close> print: single quotes unless the text has a single and no double quote;
  the quote and the backslash escaped; tab, newline and return by letter; the other
  non-printable characters below 256 as \<open>\xhh\<close>.
\<close>

definition hex_digit :: "nat \<Rightarrow> char" where
  "hex_digit n = ''0123456789abcdef'' ! (n mod 16)"

definition repr_char :: "char \<Rightarrow> char \<Rightarrow> string" where
  "repr_char q c =
     (let n = (of_char c :: nat) in
      if c = q \<or> c = CHR 0x5C then [CHR 0x5C, c]
      else if c = CHR 0x09 then [CHR 0x5C, CHR ''t'']
      else if c = CHR 0x0A then [CHR 0x5C, CHR ''n'']
      else if c = CHR 0x0D then [CHR 0x5C, CHR ''r'']
      else if n < 32 \<or> (127 \<le> n \<and> n \<le> 160) \<or> n = 173
        then [CHR 0x5C, CHR ''x'', hex_digit (n div 16), hex_digit (n mod 16)]
      else [c])"

definition py_repr :: "string \<Rightarrow> string" where
  "py_repr s =
     (let q = (if CHR 0x27 \<in> set s \<and> CHR 0x22 \<notin> set s then CHR 0x22 else CHR 0x27)
      in q # concat (map (repr_char q) s) @ [q])"

text \<open>\<open>MissionImpact(v)\<close>: the member whose value is \<open>v\<close>, or \<open>ValueError\<close>.\<close>

definition MissionImpact_of_value :: "string \<Rightarrow> exc + MissionImpact" where
  "MissionImpact_of_value v =
     (if v = ''High'' then Inr HIGH
      else if v = ''Medium'' then Inr MEDIUM
      else if v = ''Low'' then Inr LOW
      else Inl (ValueError (py_repr v @ '' is not a valid MissionImpact'')))"

fun type_name :: "pyval \<Rightarrow> string" where
  "type_name (PStr _) = ''str''"
| "type_name PNaN = ''float''"
| "type_name PNone = ''NoneType''"
| "type_name (PInt _) = ''int''"

text \<open>
  Line 100, \<open>MissionImpact(system_context.capitalize())\<close>: a value that is not text has
  no method \<open>capitalize\<close>, and the attribute lookup raises \<open>AttributeError\<close>.
\<close>

definition normalize_mission_impact :: "pyval \<Rightarrow> exc + MissionImpact" where
  "normalize_mission_impact system_context =
     (case system_context of
        PStr s \<Rightarrow> MissionImpact_of_value (capitalize s)
      | _ \<Rightarrow> Inl (AttributeError (quoted (type_name system_context)
                 @ '' object has no attribute '' @ quoted ''capitalize'')))"

text \<open>The dictionary that \<open>get_ssvc_decision_path\<close> returns.\<close>

record path =
  Exploitation :: string
  Automatable :: string
  Technical_Impact :: string
  Mission_Well_being :: string

record decision =
  path :: path
  action :: string

definition get_ssvc_decision_path ::
  "pyval \<Rightarrow> pyval \<Rightarrow> pyval \<Rightarrow> pyval \<Rightarrow> pyval \<Rightarrow> pyval \<Rightarrow> pyval \<Rightarrow> pyval \<Rightarrow> exc + decision" where
  "get_ssvc_decision_path ac pr ui c i a exploit_maturity system_context =
     (case get_exploitation_level exploit_maturity of
        Inl e \<Rightarrow> Inl e
      | Inr exploitation \<Rightarrow>
     (case is_automatable ac pr ui of
        Inl e \<Rightarrow> Inl e
      | Inr automatable \<Rightarrow>
     (case get_technical_impact c i a of
        Inl e \<Rightarrow> Inl e
      | Inr tech_impact \<Rightarrow>
     (case normalize_mission_impact system_context of
        Inl e \<Rightarrow> Inl e
      | Inr mission_impact \<Rightarrow>
          (let final_action = get_final_action exploitation automatable tech_impact mission_impact
           in Inr \<lparr>path = \<lparr>Exploitation = ExploitationLevel_value exploitation,
                            Automatable = Automatable_value automatable,
                            Technical_Impact = TechnicalImpact_value tech_impact,
                            Mission_Well_being = MissionImpact_value mission_impact\<rparr>,
                   action = SsvcAction_value final_action\<rparr>)))))"

section \<open>The per-record loop of main.py\<close>

text \<open>How an f-string and \<open>str\<close> print a cell and an exception.\<close>

definition digit_char :: "nat \<Rightarrow> char" where
  "digit_char n = ''0123456789'' ! (n mod 10)"

fun digits :: "nat \<Rightarrow> string" where
  "digits n = (if n < 10 then [digit_char n] else digits (n div 10) @ [digit_char (n mod 10)])"

declare digits.simps [simp del]

fun py_str :: "pyval \<Rightarrow> string" where
  "py_str (PStr s) = s"
| "py_str PNaN = ''nan''"
| "py_str PNone = ''None''"
| "py_str (PInt i) = (if i < 0 then CHR ''-'' # digits (nat (- i)) else digits (nat i))"

fun str_exc :: "exc \<Rightarrow> string" where
  "str_exc (TypeError msg) = msg"
| "str_exc (ValueError msg) = msg"
| "str_exc (KeyError key) = py_repr key"
| "str_exc (AttributeError msg) = msg"

text \<open>
  A row of the data frame maps a column label to the cell under it. \<open>row.get(key)\<close>
  gives \<open>None\<close> for a label the frame does not have, \<open>row[key]\<close> raises
  \<open>KeyError\<close>; \<open>pd.isna\<close> holds of NaN and of \<open>None\<close>.
\<close>

type_synonym row = "string \<Rightarrow> pyval option"

definition row_get :: "row \<Rightarrow> string \<Rightarrow> pyval" where
  "row_get r key = (case r key of None \<Rightarrow> PNone | Some v \<Rightarrow> v)"

definition row_item :: "row \<Rightarrow> string \<Rightarrow> exc + pyval" where
  "row_item r key = (case r key of None \<Rightarrow> Inl (KeyError key) | Some v \<Rightarrow> Inr v)"

definition isna :: "pyval \<Rightarrow> bool" where
  "isna v = (v = PNaN \<or> v = PNone)"

definition Criticite :: string where
  "Criticite = ''Criticit'' @ [CHR 0xE9]"

definition missing_cvss :: string where
  "missing_cvss = ''Donn'' @ [CHR 0xE9] @ ''es CVSS manquantes ou mal format'' @ [CHR 0xE9] @ ''es''"

record flat_results =
  SSVC_Exploitation :: string
  SSVC_Automatable :: string
  SSVC_Technical_Impact :: string
  SSVC_Action :: string

text \<open>The body of the \<open>try\<close> block, lines 64 to 88.\<close>

definition evaluate_row :: "row \<Rightarrow> exc + flat_results" where
  "evaluate_row r =
     (if row_get r ''ac'' = PNone \<or> isna (row_get r ''ac'') then Inl (ValueError missing_cvss)
      else if isna (row_get r ''exploit_maturity'') then
        (case row_item r ''Nature Exploit'' of
           Inl e \<Rightarrow> Inl e
         | Inr v \<Rightarrow> Inl (ValueError (''Nature Exploit non reconnue: '' @ quoted (py_str v))))
      else if isna (row_get r ''system_context'') then
        (case row_item r Criticite of
           Inl e \<Rightarrow> Inl e
         | Inr v \<Rightarrow> Inl (ValueError (Criticite @ '' non reconnue: '' @ quoted (py_str v))))
      else
        (case row_item r ''ac'' of Inl e \<Rightarrow> Inl e | Inr ac \<Rightarrow>
        (case row_item r ''pr'' of Inl e \<Rightarrow> Inl e | Inr pr \<Rightarrow>
        (case row_item r ''ui'' of Inl e \<Rightarrow> Inl e | Inr ui \<Rightarrow>
        (case row_item r ''c'' of Inl e \<Rightarrow> Inl e | Inr c \<Rightarrow>
        (case row_item r ''i'' of Inl e \<Rightarrow> Inl e | Inr i \<Rightarrow>
        (case row_item r ''a'' of Inl e \<Rightarrow> Inl e | Inr a \<Rightarrow>
        (case row_item r ''exploit_maturity'' of Inl e \<Rightarrow> Inl e | Inr exploit_maturity \<Rightarrow>
        (case row_item r ''system_context'' of Inl e \<Rightarrow> Inl e | Inr system_context \<Rightarrow>
        (case get_ssvc_decision_path ac pr ui c i a exploit_maturity system_context of
           Inl e \<Rightarrow> Inl e
         | Inr decision \<Rightarrow>
             Inr \<lparr>SSVC_Exploitation = Exploitation (path decision),
                  SSVC_Automatable = Automatable (path decision),
                  SSVC_Technical_Impact = Technical_Impact (path decision),
                  SSVC_Action = action decision\<rparr>))))))))))"

text \<open>The \<open>except (ValueError, TypeError, KeyError) as e\<close> clause and what it appends.\<close>

fun caught :: "exc \<Rightarrow> bool" where
  "caught (ValueError _) = True"
| "caught (TypeError _) = True"
| "caught (KeyError _) = True"
| "caught (AttributeError _) = False"

definition error_marker :: "exc \<Rightarrow> flat_results" where
  "error_marker e =
     \<lparr>SSVC_Exploitation = ''Erreur'', SSVC_Automatable = ''Erreur'',
      SSVC_Technical_Impact = ''Erreur'',
      SSVC_Action = ''Erreur de traitement: '' @ str_exc e\<rparr>"

text \<open>One iteration: the entry appended, or the exception that leaves the loop.\<close>

definition process_row :: "row \<Rightarrow> exc + flat_results" where
  "process_row r =
     (case evaluate_row r of
        Inr flat \<Rightarrow> Inr flat
      | Inl e \<Rightarrow> if caught e then Inr (error_marker e) else Inl e)"

text \<open>The loop over \<open>dataframe.iterrows()\<close>, threading \<open>results_list\<close>.\<close>

fun process_rows :: "row list \<Rightarrow> flat_results list \<Rightarrow> exc + flat_results list" where
  "process_rows [] results_list = Inr results_list"
| "process_rows (r # rest) results_list =
     (case process_row r of
        Inl e \<Rightarrow> Inl e
      | Inr entry \<Rightarrow> process_rows rest (results_list @ [entry]))"



section \<open>Properties\<close>

subsection \<open>Case mapping\<close>

lemmas case_map_defs =
  lower_def lower_char_def title_char_def ascii_uppercase_def ascii_lowercase_def

lemma title_char_H: "title_char c = CHR ''H'' \<longleftrightarrow> lower_char c = CHR ''h''"
  by (auto simp: case_map_defs split: if_splits)

lemma title_char_M: "title_char c = CHR ''M'' \<longleftrightarrow> lower_char c = CHR ''m''"
  by (auto simp: case_map_defs split: if_splits)

lemma title_char_L: "title_char c = CHR ''L'' \<longleftrightarrow> lower_char c = CHR ''l''"
  by (auto simp: case_map_defs split: if_splits)

lemma capitalize_High: "capitalize s = ''High'' \<longleftrightarrow> lower s = ''high''"
  by (cases s) (simp_all add: lower_def title_char_H)

lemma capitalize_Medium: "capitalize s = ''Medium'' \<longleftrightarrow> lower s = ''medium''"
  by (cases s) (simp_all add: lower_def title_char_M)

lemma capitalize_Low: "capitalize s = ''Low'' \<longleftrightarrow> lower s = ''low''"
  by (cases s) (simp_all add: lower_def title_char_L)

text \<open>What ``equal, compared case-insensitively'' means for the one-letter metric codes.\<close>

lemma lower_eq_l: "lower s = ''l'' \<longleftrightarrow> s = ''l'' \<or> s = ''L''"
  by (cases s) (auto simp: case_map_defs split: if_splits)

lemma lower_eq_n: "lower s = ''n'' \<longleftrightarrow> s = ''n'' \<or> s = ''N''"
  by (cases s) (auto simp: case_map_defs split: if_splits)

lemma lower_eq_h: "lower s = ''h'' \<longleftrightarrow> s = ''h'' \<or> s = ''H''"
  by (cases s) (auto simp: case_map_defs split: if_splits)

lemma MissionImpact_value_eq:
  "MissionImpact_value m = ''High'' \<longleftrightarrow> m = HIGH"
  "MissionImpact_value m = ''Medium'' \<longleftrightarrow> m = MEDIUM"
  "MissionImpact_value m = ''Low'' \<longleftrightarrow> m = LOW"
  by (cases m; simp)+

subsection \<open>The decision tree\<close>

text \<open>
  Claim C1. On each of the 3 x 2 x 2 x 3 = 36 quadruples of classifications,
  \<open>get_final_action\<close> returns the action that the table of section 4.5 gives for that
  cell. Both sides are total functions of the four enumerations, so the equation at every
  quadruple is also the totality of the decision tree on this input space.
\<close>

theorem get_final_action_table:
  "get_final_action e a t m = decision_table e a t m"
  by (cases e; cases a; cases t; cases m) (simp_all add: get_final_action_def)

theorem get_final_action_table_witness:
  "get_final_action ACTIVE YES PARTIAL LOW = ACT
   \<and> get_final_action POC NO TOTAL HIGH = ATTEND
   \<and> get_final_action NONE NO TOTAL HIGH = TRACK_STAR
   \<and> get_final_action NONE NO TOTAL MEDIUM = TRACK
   \<and> get_final_action NONE NO TOTAL LOW = TRACK"
  using get_final_action_table [of ACTIVE YES PARTIAL LOW]
    get_final_action_table [of POC NO TOTAL HIGH]
    get_final_action_table [of NONE NO TOTAL HIGH]
    get_final_action_table [of NONE NO TOTAL MEDIUM]
    get_final_action_table [of NONE NO TOTAL LOW]
  by simp

subsection \<open>The classifiers on text\<close>

text \<open>
  Claim C2. For all texts \<open>attack_complexity\<close>, \<open>privileges_required\<close> and
  \<open>user_interaction\<close>, \<open>is_automatable\<close> returns \<open>Yes\<close> exactly when their lower-case
  forms are \<open>l\<close>, \<open>n\<close> and \<open>n\<close>, and returns \<open>No\<close> exactly when one of the three
  comparisons fails.
\<close>

theorem is_automatable_iff:
  "(is_automatable (PStr ac) (PStr pr) (PStr ui) = Inr YES
      \<longleftrightarrow> lower ac = ''l'' \<and> lower pr = ''n'' \<and> lower ui = ''n'')
   \<and> (is_automatable (PStr ac) (PStr pr) (PStr ui) = Inr NO
      \<longleftrightarrow> \<not> (lower ac = ''l'' \<and> lower pr = ''n'' \<and> lower ui = ''n''))"
  by (simp add: is_automatable_def must_be_string_def)

theorem is_automatable_iff_witness:
  "is_automatable (PStr ''L'') (PStr ''N'') (PStr ''N'') = Inr YES
   \<and> is_automatable (PStr ''l'') (PStr ''n'') (PStr ''n'') = Inr YES
   \<and> is_automatable (PStr ''H'') (PStr ''N'') (PStr ''N'') = Inr NO
   \<and> is_automatable (PStr ''L'') (PStr ''L'') (PStr ''N'') = Inr NO
   \<and> is_automatable (PStr ''L'') (PStr ''N'') (PStr ''R'') = Inr NO"
  using is_automatable_iff [of "''L''" "''N''" "''N''"]
    is_automatable_iff [of "''l''" "''n''" "''n''"]
    is_automatable_iff [of "''H''" "''N''" "''N''"]
    is_automatable_iff [of "''L''" "''L''" "''N''"]
    is_automatable_iff [of "''L''" "''N''" "''R''"]
  by (simp add: case_map_defs)

text \<open>
  Claim C9. On texts \<open>is_automatable\<close> never raises: it always returns a member of
  \<open>Automatable\<close>, and any text that fails one of the three comparisons, a text outside
  the metric's domain and the empty text included, gives \<open>No\<close>.
\<close>

theorem is_automatable_never_fails:
  "(\<exists>v. is_automatable (PStr ac) (PStr pr) (PStr ui) = Inr v)
   \<and> (lower ac \<noteq> ''l'' \<or> lower pr \<noteq> ''n'' \<or> lower ui \<noteq> ''n''
        \<longrightarrow> is_automatable (PStr ac) (PStr pr) (PStr ui) = Inr NO)"
  by (simp add: is_automatable_def must_be_string_def)

theorem is_automatable_never_fails_witness:
  "is_automatable (PStr ''x'') (PStr []) (PStr ''n'') = Inr NO"
  using is_automatable_never_fails [of "''x''" "[]" "''n''"]
  by (simp add: case_map_defs)

text \<open>\<open>get_technical_impact\<close> on three texts, as one chain of tests.\<close>

lemma get_technical_impact_text:
  "get_technical_impact (PStr c) (PStr i) (PStr a) =
     (if lower c \<notin> valid_values then Inl (invalid_metric ''c'' c)
      else if lower i \<notin> valid_values then Inl (invalid_metric ''i'' i)
      else if lower a \<notin> valid_values then Inl (invalid_metric ''a'' a)
      else Inr (if lower c = ''h'' \<and> lower i = ''h'' \<and> lower a = ''h'' then TOTAL else PARTIAL))"
  by (simp add: get_technical_impact_def must_be_string_def)



text \<open>
  Claim C4. On three texts whose lower-case forms are each one of \<open>h\<close>, \<open>l\<close>, \<open>n\<close>,
  \<open>get_technical_impact\<close> returns \<open>Total\<close> when all three lower-case forms are \<open>h\<close>
  and \<open>Partial\<close> otherwise.
\<close>

theorem get_technical_impact_total_iff:
  assumes "lower c \<in> {''h'', ''l'', ''n''}" and "lower i \<in> {''h'', ''l'', ''n''}"
    and "lower a \<in> {''h'', ''l'', ''n''}"
  shows "get_technical_impact (PStr c) (PStr i) (PStr a) =
           Inr (if lower c = ''h'' \<and> lower i = ''h'' \<and> lower a = ''h'' then TOTAL else PARTIAL)"
  using assms unfolding get_technical_impact_text valid_values_def by simp

theorem get_technical_impact_total_iff_witness:
  "get_technical_impact (PStr ''H'') (PStr ''H'') (PStr ''H'') = Inr TOTAL
   \<and> get_technical_impact (PStr ''H'') (PStr ''h'') (PStr ''L'') = Inr PARTIAL
   \<and> get_technical_impact (PStr ''n'') (PStr ''N'') (PStr ''l'') = Inr PARTIAL"
proof -
  have H: "lower ''H'' \<in> {''h'', ''l'', ''n''}" and h: "lower ''h'' \<in> {''h'', ''l'', ''n''}"
    and L: "lower ''L'' \<in> {''h'', ''l'', ''n''}" and l: "lower ''l'' \<in> {''h'', ''l'', ''n''}"
    and N: "lower ''N'' \<in> {''h'', ''l'', ''n''}" and n: "lower ''n'' \<in> {''h'', ''l'', ''n''}"
    by (simp_all add: case_map_defs)
  show ?thesis
    using get_technical_impact_total_iff [OF H H H] get_technical_impact_total_iff [OF H h L]
      get_technical_impact_total_iff [OF n N l]
    by (simp add: case_map_defs)
qed

text \<open>
  Claim C5. On a text \<open>get_exploitation_level\<close> returns \<open>Active\<close> when the lower-case
  form is one of the five active tokens, \<open>PoC\<close> when it is one of the three
  proof-of-concept tokens, and \<open>None\<close> for every other text; it never raises.
\<close>

theorem get_exploitation_level_sets:
  "get_exploitation_level (PStr exploit_maturity) =
     Inr (if lower exploit_maturity
               \<in> {''active'', ''attacked'', ''high'', ''critical'', ''functional''}
            then ACTIVE
          else if lower exploit_maturity \<in> {''poc'', ''proof-of-concept'', ''available''}
            then POC
          else NONE)"
  by (simp add: get_exploitation_level_def must_be_string_def active_states_def
      poc_states_def Let_def)

theorem get_exploitation_level_sets_witness:
  "get_exploitation_level (PStr ''ACTIVE'') = Inr ACTIVE
   \<and> get_exploitation_level (PStr ''Proof-of-Concept'') = Inr POC
   \<and> get_exploitation_level (PStr ''unknown-token'') = Inr NONE"
  using get_exploitation_level_sets [of "''ACTIVE''"]
    get_exploitation_level_sets [of "''Proof-of-Concept''"]
    get_exploitation_level_sets [of "''unknown-token''"]
  by (simp add: case_map_defs)

subsection \<open>Mission impact\<close>



text \<open>
  Claim C10. The normalization is case-insensitive: on a text \<open>s\<close> it succeeds exactly
  when the lower-case form of \<open>s\<close> is \<open>high\<close>, \<open>medium\<close> or \<open>low\<close>; the member it
  returns has the capitalized form of \<open>s\<close> as its value, and the decision path records
  one of \<open>High\<close>, \<open>Medium\<close>, \<open>Low\<close>, equal to \<open>s\<close> up to case.
\<close>

theorem mission_impact_case_insensitive:
  "((\<exists>m. normalize_mission_impact (PStr s) = Inr m)
      \<longleftrightarrow> lower s \<in> {''high'', ''medium'', ''low''})
   \<and> (normalize_mission_impact (PStr s) = Inr m
        \<longrightarrow> MissionImpact_value m = capitalize s \<and> lower (MissionImpact_value m) = lower s)
   \<and> (get_ssvc_decision_path ac pr ui c i a exploit_maturity (PStr s) = Inr d
        \<longrightarrow> Mission_Well_being (path d) \<in> {''High'', ''Medium'', ''Low''}
            \<and> lower (Mission_Well_being (path d)) = lower s)"
proof -
  have norm: "normalize_mission_impact (PStr s) =
      (if lower s = ''high'' then Inr HIGH
       else if lower s = ''medium'' then Inr MEDIUM
       else if lower s = ''low'' then Inr LOW
       else Inl (ValueError (py_repr (capitalize s) @ '' is not a valid MissionImpact'')))"
    by (simp add: normalize_mission_impact_def MissionImpact_of_value_def
        capitalize_High capitalize_Medium capitalize_Low)
  have low: "lower ''High'' = ''high''" "lower ''Medium'' = ''medium''" "lower ''Low'' = ''low''"
    by (simp_all add: case_map_defs)
  have ok: "capitalize s = MissionImpact_value m' \<and> lower (MissionImpact_value m') = lower s
      \<and> MissionImpact_value m' \<in> {''High'', ''Medium'', ''Low''}"
    if "normalize_mission_impact (PStr s) = Inr m'" for m'
    using that unfolding norm
    by (auto simp: low capitalize_High capitalize_Medium capitalize_Low split: if_splits)
  have dp: "Mission_Well_being (path d) \<in> {''High'', ''Medium'', ''Low''}
      \<and> lower (Mission_Well_being (path d)) = lower s"
    if "get_ssvc_decision_path ac pr ui c i a exploit_maturity (PStr s) = Inr d"
  proof -
    from that obtain m' where "normalize_mission_impact (PStr s) = Inr m'"
      and "Mission_Well_being (path d) = MissionImpact_value m'"
      by (auto simp: get_ssvc_decision_path_def Let_def split: sum.splits)
    with ok [of m'] show ?thesis by simp
  qed
  show ?thesis
    using ok [of m] dp by (auto simp: norm)
qed

theorem mission_impact_case_insensitive_witness:
  "normalize_mission_impact (PStr ''HIGH'') = Inr HIGH
   \<and> normalize_mission_impact (PStr ''mEdIuM'') = Inr MEDIUM
   \<and> normalize_mission_impact (PStr ''loW'') = Inr LOW
   \<and> (\<nexists>m. normalize_mission_impact (PStr ''lowest'') = Inr m)"
proof -
  have ex: "\<exists>m. normalize_mission_impact (PStr s) = Inr m \<and> MissionImpact_value m = capitalize s"
    if "lower s \<in> {''high'', ''medium'', ''low''}" for s
    using mission_impact_case_insensitive [of s] that by blast
  have "normalize_mission_impact (PStr ''HIGH'') = Inr HIGH"
    using ex [of "''HIGH''"] by (simp add: case_map_defs MissionImpact_value_eq)
  moreover have "normalize_mission_impact (PStr ''mEdIuM'') = Inr MEDIUM"
    using ex [of "''mEdIuM''"] by (simp add: case_map_defs MissionImpact_value_eq)
  moreover have "normalize_mission_impact (PStr ''loW'') = Inr LOW"
    using ex [of "''loW''"] by (simp add: case_map_defs MissionImpact_value_eq)
  moreover have "\<nexists>m. normalize_mission_impact (PStr ''lowest'') = Inr m"
    using mission_impact_case_insensitive [of "''lowest''"] by (simp add: case_map_defs)
  ultimately show ?thesis by simp
qed


subsection \<open>The decision path\<close>

text \<open>
  Claim C7. For every eight arguments, \<open>get_ssvc_decision_path\<close> raises exactly when
  one of the four steps raises on its arguments. The exception it raises is that of the
  first step to raise, in the order exploitation, automatability, technical impact,
  mission impact, and then no dictionary is returned. When the four steps succeed, it
  returns the dictionary of their four values and of the value of the action that
  \<open>get_final_action\<close> computes from the four classifications.
\<close>

theorem get_ssvc_decision_path_first_failure:
  "(get_exploitation_level exploit_maturity = Inl e
      \<longrightarrow> get_ssvc_decision_path ac pr ui c i a exploit_maturity system_context = Inl e)
   \<and> (get_exploitation_level exploit_maturity = Inr exploitation
        \<and> is_automatable ac pr ui = Inl e
      \<longrightarrow> get_ssvc_decision_path ac pr ui c i a exploit_maturity system_context = Inl e)
   \<and> (get_exploitation_level exploit_maturity = Inr exploitation
        \<and> is_automatable ac pr ui = Inr automatable
        \<and> get_technical_impact c i a = Inl e
      \<longrightarrow> get_ssvc_decision_path ac pr ui c i a exploit_maturity system_context = Inl e)
   \<and> (get_exploitation_level exploit_maturity = Inr exploitation
        \<and> is_automatable ac pr ui = Inr automatable
        \<and> get_technical_impact c i a = Inr tech_impact
        \<and> normalize_mission_impact system_context = Inl e
      \<longrightarrow> get_ssvc_decision_path ac pr ui c i a exploit_maturity system_context = Inl e)
   \<and> (get_exploitation_level exploit_maturity = Inr exploitation
        \<and> is_automatable ac pr ui = Inr automatable
        \<and> get_technical_impact c i a = Inr tech_impact
        \<and> normalize_mission_impact system_context = Inr mission_impact
      \<longrightarrow> get_ssvc_decision_path ac pr ui c i a exploit_maturity system_context
            = Inr \<lparr>path = \<lparr>Exploitation = ExploitationLevel_value exploitation,
                             Automatable = Automatable_value automatable,
                             Technical_Impact = TechnicalImpact_value tech_impact,
                             Mission_Well_being = MissionImpact_value mission_impact\<rparr>,
                    action = SsvcAction_value
                      (get_final_action exploitation automatable tech_impact mission_impact)\<rparr>)
   \<and> ((\<exists>e'. get_ssvc_decision_path ac pr ui c i a exploit_maturity system_context = Inl e')
        \<longleftrightarrow> (\<exists>e'. get_exploitation_level exploit_maturity = Inl e')
            \<or> (\<exists>e'. is_automatable ac pr ui = Inl e')
            \<or> (\<exists>e'. get_technical_impact c i a = Inl e')
            \<or> (\<exists>e'. normalize_mission_impact system_context = Inl e'))"
  by (auto simp: get_ssvc_decision_path_def Let_def split: sum.splits)

theorem get_ssvc_decision_path_first_failure_witness:
  "get_ssvc_decision_path (PStr ''L'') (PStr ''N'') (PStr ''N'') (PStr ''H'') (PStr ''H'')
       (PStr ''H'') (PStr ''poc'') (PStr ''low'')
     = Inr \<lparr>path = \<lparr>Exploitation = ''PoC'', Automatable = ''Yes'', Technical_Impact = ''Total'',
                      Mission_Well_being = ''Low''\<rparr>, action = ''Track*''\<rparr>
   \<and> get_ssvc_decision_path PNaN (PStr ''N'') (PStr ''N'') (PStr ''x'') (PStr ''H'')
       (PStr ''H'') PNone (PStr ''urgent'')
     = Inl (TypeError ''exploit_maturity must be a string.'')
   \<and> get_ssvc_decision_path PNaN (PStr ''N'') (PStr ''N'') (PStr ''x'') (PStr ''H'')
       (PStr ''H'') (PStr ''poc'') (PStr ''urgent'')
     = Inl (TypeError ''attack_complexity must be a string.'')
   \<and> get_ssvc_decision_path (PStr ''L'') (PStr ''N'') (PStr ''N'') (PStr ''x'') (PStr ''H'')
       (PStr ''H'') (PStr ''poc'') (PStr ''urgent'')
     = Inl (invalid_metric ''c'' ''x'')
   \<and> get_ssvc_decision_path (PStr ''L'') (PStr ''N'') (PStr ''N'') (PStr ''H'') (PStr ''H'')
       (PStr ''H'') (PStr ''poc'') PNaN
     = Inl (AttributeError (quoted ''float'' @ '' object has no attribute '' @ quoted ''capitalize''))"
proof -
  have gel: "get_exploitation_level (PStr ''poc'') = Inr POC"
    "get_exploitation_level PNone = Inl (TypeError ''exploit_maturity must be a string.'')"
    by code_simp+
  have ia: "is_automatable (PStr ''L'') (PStr ''N'') (PStr ''N'') = Inr YES"
    "is_automatable PNaN (PStr ''N'') (PStr ''N'')
       = Inl (TypeError ''attack_complexity must be a string.'')"
    by code_simp+
  have gti: "get_technical_impact (PStr ''H'') (PStr ''H'') (PStr ''H'') = Inr TOTAL"
    "get_technical_impact (PStr ''x'') (PStr ''H'') (PStr ''H'') = Inl (invalid_metric ''c'' ''x'')"
    by code_simp+
  have nmi: "normalize_mission_impact (PStr ''low'') = Inr LOW"
    "normalize_mission_impact PNaN
       = Inl (AttributeError (quoted ''float'' @ '' object has no attribute '' @ quoted ''capitalize''))"
    by code_simp+
  have fa: "get_final_action POC YES TOTAL LOW = TRACK_STAR"
    by code_simp
  show ?thesis
    using get_ssvc_decision_path_first_failure
        [of "PStr ''poc''" _ "PStr ''L''" "PStr ''N''" "PStr ''N''" "PStr ''H''" "PStr ''H''"
          "PStr ''H''" "PStr ''low''" POC YES TOTAL LOW]
      get_ssvc_decision_path_first_failure
        [of PNone "TypeError ''exploit_maturity must be a string.''" PNaN "PStr ''N''"
          "PStr ''N''" "PStr ''x''" "PStr ''H''" "PStr ''H''" "PStr ''urgent''"]
      get_ssvc_decision_path_first_failure
        [of "PStr ''poc''" "TypeError ''attack_complexity must be a string.''" PNaN "PStr ''N''"
          "PStr ''N''" "PStr ''x''" "PStr ''H''" "PStr ''H''" "PStr ''urgent''" POC]
      get_ssvc_decision_path_first_failure
        [of "PStr ''poc''" "invalid_metric ''c'' ''x''" "PStr ''L''" "PStr ''N''"
          "PStr ''N''" "PStr ''x''" "PStr ''H''" "PStr ''H''" "PStr ''urgent''" POC YES]
      get_ssvc_decision_path_first_failure
        [of "PStr ''poc''" "AttributeError (quoted ''float'' @ '' object has no attribute '' @ quoted ''capitalize'')"
          "PStr ''L''" "PStr ''N''" "PStr ''N''" "PStr ''H''" "PStr ''H''" "PStr ''H''" PNaN
          POC YES TOTAL]
    by (simp add: gel ia gti nmi fa)
qed

subsection \<open>The per-record loop\<close>















text \<open>
  The hypothesis on \<open>system_context\<close> is what line 49 establishes. It cannot be dropped:
  on a number in that cell \<open>capitalize\<close> raises \<open>AttributeError\<close>, which the
  \<open>except\<close> clause does not list.
\<close>

lemma process_rows_aborts_on_number:
  "process_rows [map_of [(''ac'', PStr ''l''), (''pr'', PStr ''n''), (''ui'', PStr ''n''),
       (''c'', PStr ''h''), (''i'', PStr ''h''), (''a'', PStr ''h''),
       (''exploit_maturity'', PStr ''active''), (''system_context'', PInt 3)]] []
   = Inl (AttributeError (quoted ''int'' @ '' object has no attribute '' @ quoted ''capitalize''))"
  by code_simp

end
